theory Spec2Isabelle
  imports Main "HOL-Library.Word"
begin

unbundle bit_operations_syntax

section \<open>Data model\<close>

text \<open>
  The connection manager of \<^verbatim>\<open>internal/conman/tcpmanager.go\<close> and the artifact store of
  \<^verbatim>\<open>pkg/conman/store.go\<close>. Go's \<^verbatim>\<open>byte\<close> and \<^verbatim>\<open>uint16\<close> are words, Go's \<^verbatim>\<open>int\<close> is
  \<^typ>\<open>int\<close> (no arithmetic on it can overflow here), a Go \<^verbatim>\<open>error\<close> that is \<^verbatim>\<open>nil\<close> is
  \<^term>\<open>None\<close>.
\<close>

type_synonym byte = "8 word"
type_synonym uint16 = "16 word"

datatype error =
    errors_New string   \<comment> \<open>\<^verbatim>\<open>errors.New(msg)\<close>\<close>
  | io_EOF              \<comment> \<open>\<^verbatim>\<open>io.EOF\<close>\<close>
  | PathError string    \<comment> \<open>an \<^verbatim>\<open>*os.PathError\<close>, by errno name\<close>
  | OpError string      \<comment> \<open>a \<^verbatim>\<open>*net.OpError\<close> or any other I/O error\<close>

text \<open>A \<^verbatim>\<open>net.IP\<close>: four bytes for IPv4, sixteen otherwise; \<^verbatim>\<open>To4()\<close> is non-nil on the first.\<close>

datatype IP = IPv4 byte byte byte byte | IPv6 "byte list"

fun To4 :: "IP \<Rightarrow> IP option" where
  "To4 (IPv4 a b c d) = Some (IPv4 a b c d)"
| "To4 (IPv6 bs) = None"

text \<open>\<^verbatim>\<open>strconv.Itoa\<close> and the verb \<^verbatim>\<open>%d\<close> on a number that is not negative.\<close>

definition digit :: "nat \<Rightarrow> char" where
  "digit n = char_of (48 + n)"

function Itoa :: "nat \<Rightarrow> string" where
  "Itoa n = (if n < 10 then [digit n] else Itoa (n div 10) @ [digit (n mod 10)])"
  by pat_completeness auto
termination
  by (relation "measure id") auto

declare Itoa.simps [simp del]

fun IP_String :: "IP \<Rightarrow> string" where
  "IP_String (IPv4 a b c d) =
     Itoa (unat a) @ ''.'' @ Itoa (unat b) @ ''.'' @ Itoa (unat c) @ ''.'' @ Itoa (unat d)"
| "IP_String (IPv6 bs) = ''?''"

text \<open>A \<^verbatim>\<open>net.Addr\<close>: the handler tells a \<^verbatim>\<open>*net.TCPAddr\<close> from every other kind.\<close>

datatype Addr = TCPAddr IP int | OtherAddr

text \<open>
  A listener returned by \<^verbatim>\<open>net.Listen("tcp", addr)\<close>, known by the address it was asked for
  and by the port it is bound to (the port of \<^verbatim>\<open>ln.Addr()\<close>).
\<close>

datatype Listener = Listener string uint16

text \<open>\<^verbatim>\<open>store.File\<close>, the record sent on the capture channel.\<close>

record File =
  Filename :: string
  Location :: string
  Data :: "byte list"

text \<open>A driver's synthetic listener (\<^verbatim>\<open>muxconn.MuxListener\<close>), known by its driver.\<close>

datatype MuxListener = MuxListener string

text \<open>The \<^verbatim>\<open>s3manager.Uploader\<close> built by \<^verbatim>\<open>setupStore\<close>, known by the settings it was built from.\<close>

record Uploader =
  KeyID :: string
  Key :: string
  Endpoint :: string
  Region :: string

record Config =
  MaxPort :: uint16
  BindAddress :: string
  OutputFolder :: string
  S3Bucket :: string
  S3Key :: string
  S3KeyID :: string
  S3Endpoint :: string
  S3Region :: string

text \<open>
  The fields of \<^verbatim>\<open>ConnectionManager\<close> that the two files read or write. \<^verbatim>\<open>knownHashes\<close> is a
  \<^verbatim>\<open>sync.Map\<close> of which only the keys are ever asked for; \<^verbatim>\<open>storeChan\<close> is the capture channel,
  kept as the records sent on it so far, oldest first.
\<close>

record ConnectionManager =
  config :: Config
  addresses :: "IP list"
  tcpListeners :: "uint16 \<rightharpoonup> Listener"
  knownHashes :: "string set"
  storeChan :: "File list"
  uploader :: "Uploader option"

section \<open>Listener registry: \<^verbatim>\<open>CreateTCPListener\<close>\<close>

text \<open>
  What a call does to the world outside the manager's own fields, in the order it does it:
  the sockets it asks the kernel for, the goroutines it starts, the lines it logs, the calls it
  makes on a connection and into the helpers of other packages. \<^verbatim>\<open>Sniffer\<close> is the
  \<^verbatim>\<open>MuxConn\<close> made from the accepted connection, \<^verbatim>\<open>Unwrapped\<close> the one that \<^verbatim>\<open>unwrapTLS\<close>
  returns.
\<close>

datatype MuxConn = Sniffer | Unwrapped

datatype effect =
    net_Listen string     \<comment> \<open>\<^verbatim>\<open>net.Listen("tcp", addr)\<close> was called\<close>
  | go_Accept Listener    \<comment> \<open>the accept loop of a listener was started\<close>
  | call_CreateTCPListener uint16
  | log_Trace string
  | log_Debug string
  | panic string
  | wg_Done
  | conn_Close
  | NewMuxConn
  | StartSniffing
  | go_sendBanner uint16
  | go_timeoutConnection
  | r_Read
  | bannerCancel
  | timeoutCancel
  | DoneSniffing
  | call_unwrapTLS
  | muc_Reset MuxConn
  | muc_Close MuxConn
  | call_GetHash "byte list"
  | call_Match "byte list"
  | ConnCh_send MuxListener MuxConn
  | ioutil_WriteFile string "byte list"
  | s3_Upload string string "byte list"

text \<open>
  The bind address. The loop over \<^verbatim>\<open>s.addresses\<close> has no \<^verbatim>\<open>break\<close>: every public IPv4
  address overwrites the one before. \<^verbatim>\<open>privateIP\<close> is a helper outside these files and is a
  parameter.
\<close>

definition bindAddress :: "(IP \<Rightarrow> bool) \<Rightarrow> ConnectionManager \<Rightarrow> string" where
  "bindAddress privateIP s =
     (if BindAddress (config s) \<noteq> '''' then
        (if BindAddress (config s) = ''public'' then
           fold (\<lambda>addr address.
                   if \<not> privateIP addr \<and> To4 addr \<noteq> None then IP_String addr else address)
                (addresses s) ''0.0.0.0''
         else BindAddress (config s))
      else ''0.0.0.0'')"

text \<open>
  \<^verbatim>\<open>CreateTCPListener(port) (bool, error)\<close>. The kernel's answer to \<^verbatim>\<open>net.Listen\<close> is the
  parameter \<open>listen\<close>: the error, or the port it picks for a socket that names none. A
  socket asked for a port other than 0 is bound to that port; asked for port 0, as in
  \<^verbatim>\<open>"0.0.0.0:0"\<close>, it is bound to the port the kernel picks. The local \<^verbatim>\<open>sync.WaitGroup\<close> is
  empty when \<^verbatim>\<open>wg.Wait()\<close> runs, so that call returns at once.
\<close>

definition CreateTCPListener ::
  "(IP \<Rightarrow> bool) \<Rightarrow> (string \<Rightarrow> error + uint16) \<Rightarrow> ConnectionManager \<Rightarrow> uint16
     \<Rightarrow> (bool \<times> error option) \<times> effect list \<times> ConnectionManager" where
  "CreateTCPListener privateIP listen s port =
     (if port > MaxPort (config s) then
        ((False, Some (errors_New ''above config.Maxport'')), [], s)
      else
        let address = bindAddress privateIP s in
        (case tcpListeners s port of
           None \<Rightarrow>
             let addr = address @ '':'' @ Itoa (unat port) in
             (case listen addr of
                Inl err \<Rightarrow> ((True, Some err), [net_Listen addr], s)
              | Inr picked \<Rightarrow>
                  let ln = Listener addr (if port = 0 then picked else port) in
                  ((False, None), [net_Listen addr, go_Accept ln],
                   s\<lparr>tcpListeners := (tcpListeners s)(port \<mapsto> ln)\<rparr>))
         | Some _ \<Rightarrow> ((True, None), [], s)))"

text \<open>
  The states the registry can be in: it starts empty, and in these files only
  \<^verbatim>\<open>CreateTCPListener\<close> writes to it; whatever else runs leaves the registry and the
  configuration as they are.
\<close>

inductive reachable :: "ConnectionManager \<Rightarrow> bool" where
  start: "tcpListeners s = Map.empty \<Longrightarrow> reachable s"
| create: "reachable s \<Longrightarrow> CreateTCPListener privateIP listen s port = (r, es, s')
             \<Longrightarrow> reachable s'"
| other: "reachable s \<Longrightarrow> tcpListeners s' = tcpListeners s \<Longrightarrow> config s' = config s
             \<Longrightarrow> reachable s'"

section \<open>Raw SYN observer: the loop of \<^verbatim>\<open>tcpManager\<close>\<close>

text \<open>
  The fields of \<^verbatim>\<open>probe.TCPPacket\<close> that the loop reads. The decoder \<^verbatim>\<open>Decode\<close> is outside
  these files and is a parameter.
\<close>

record TCPPacket =
  DestPort :: uint16
  Flags :: byte

text \<open>
  Modelled from the spec: the masks \<^verbatim>\<open>probe.SYN\<close> and \<^verbatim>\<open>probe.ACK\<close> are declared outside these
  files. The spec names them the SYN flag and the ACK flag of the TCP header, which are the
  bits 0x02 and 0x10 of the flags byte.
\<close>

definition SYN :: byte where
  "SYN = 0x02"

definition ACK :: byte where
  "ACK = 0x10"

text \<open>
  One turn of the loop. \<open>rd\<close> is what \<^verbatim>\<open>conn.ReadFrom(buf)\<close> gave: the error with the address
  (\<^term>\<open>None\<close> for a nil \<^verbatim>\<open>net.Addr\<close>, on which \<^verbatim>\<open>addr.String()\<close> panics), or the bytes
  \<^verbatim>\<open>buf[:n]\<close>.
\<close>

definition tcpManager_step ::
  "(IP \<Rightarrow> bool) \<Rightarrow> (string \<Rightarrow> error + uint16) \<Rightarrow> (byte list \<Rightarrow> TCPPacket)
     \<Rightarrow> (error \<times> string option) + byte list \<Rightarrow> ConnectionManager
     \<Rightarrow> effect list \<times> ConnectionManager" where
  "tcpManager_step privateIP listen Decode rd s =
     (case rd of
        Inl (err, addr) \<Rightarrow>
          (case addr of
             None \<Rightarrow> ([panic ''nil pointer dereference''], s)
           | Some a \<Rightarrow> ([log_Trace ''reading socket''], s))
      | Inr bytes \<Rightarrow>
          let pkt = Decode bytes in
          if Flags pkt AND SYN \<noteq> 0 then
            (case CreateTCPListener privateIP listen s (DestPort pkt) of
               ((known, err), es, s') \<Rightarrow>
                 (call_CreateTCPListener (DestPort pkt) # es
                    @ (if err \<noteq> None then [log_Trace ''creating socket''] else [])
                    @ (if \<not> known
                       then [log_Trace (''started tcp server: '' @ Itoa (unat (DestPort pkt)))]
                       else []),
                  s'))
          else ([], s))"

section \<open>Per-connection handler: \<^verbatim>\<open>handleConnection\<close>\<close>

text \<open>
  What one accepted connection brings with it: its remote address, the port of the listener
  that accepted it, what the first \<^verbatim>\<open>Read\<close> on the sniffer delivers (the bytes and the
  error), and what \<^verbatim>\<open>unwrapTLS\<close> answers if it is called (the error, or the new buffer and
  its count).
\<close>

record Conn =
  RemoteAddr :: Addr
  LocalPort :: int
  first_Read :: "byte list \<times> error option"
  unwrapTLS :: "error + byte list \<times> int"

text \<open>\<^verbatim>\<open>n, err := r.Read(buf)\<close>: at most \<^verbatim>\<open>len(buf)\<close> bytes overwrite the front of \<^verbatim>\<open>buf\<close>.\<close>

definition Read_into :: "byte list \<Rightarrow> byte list \<Rightarrow> byte list \<times> int" where
  "Read_into buf bytes =
     (let got = take (length buf) bytes in (got @ drop (length got) buf, int (length got)))"

text \<open>\<^verbatim>\<open>buf[:n]\<close>, which panics when \<^verbatim>\<open>n\<close> is out of range.\<close>

definition slice_to :: "byte list \<Rightarrow> int \<Rightarrow> byte list option" where
  "slice_to buf n = (if 0 \<le> n \<and> nat n \<le> length buf then Some (take (nat n) buf) else None)"

text \<open>Lines 163 to 168: the raw capture.\<close>

definition save_raw :: "int \<Rightarrow> string \<Rightarrow> byte list \<Rightarrow> ConnectionManager \<Rightarrow> ConnectionManager" where
  "save_raw n hash bufn s =
     (if n > 0 then
        (if hash \<notin> knownHashes s then
           s\<lparr>storeChan := storeChan s @ [\<lparr>Filename = hash, Location = ''raw'', Data = bufn\<rparr>]\<rparr>
         else s)
      else s)"

text \<open>Lines 170 to 189: the hand-over to a driver. \<^verbatim>\<open>Match\<close> is given the whole buffer.\<close>

definition route ::
  "(byte list \<Rightarrow> MuxListener option) \<Rightarrow> MuxConn \<Rightarrow> byte list \<Rightarrow> int \<Rightarrow> effect list" where
  "route Match muc buf n =
     call_Match buf # muc_Reset muc #
     (case Match buf of
        Some ln \<Rightarrow> [ConnCh_send ln muc]
      | None \<Rightarrow> (if n > 0 then [log_Debug ''no driver''] else []) @ [muc_Close muc])"

text \<open>Lines 126 to 139: the first read, and what follows it whatever it returned.\<close>

definition sniff :: "Conn \<Rightarrow> (byte list \<times> int) \<times> effect list" where
  "sniff conn =
     (Read_into (replicate 1500 0) (fst (first_Read conn)),
      r_Read #
      (case snd (first_Read conn) of
         None \<Rightarrow> []
       | Some err \<Rightarrow>
           (if err \<noteq> io_EOF
            then [log_Debug ''error reading from sniffer'', muc_Close Sniffer] else []))
      @ [bannerCancel, timeoutCancel])"

text \<open>Lines 141 to 152: the TLS detour. A buffer of 1500 bytes has a first byte.\<close>

definition try_unwrap ::
  "Conn \<Rightarrow> byte list \<times> int \<Rightarrow> (MuxConn \<times> byte list \<times> int \<times> bool) \<times> effect list" where
  "try_unwrap conn bn =
     (if hd (fst bn) = 0x16 then
        (case unwrapTLS conn of
           Inr (newBuf, newN) \<Rightarrow> ((Unwrapped, newBuf, newN, True), [DoneSniffing, call_unwrapTLS])
         | Inl err \<Rightarrow> ((Sniffer, fst bn, snd bn, False), [DoneSniffing, call_unwrapTLS]))
      else ((Sniffer, fst bn, snd bn, False), []))"

text \<open>
  \<^verbatim>\<open>handleConnection(conn, root, wg)\<close>. \<^verbatim>\<open>tickBan\<close>, \<^verbatim>\<open>drivers.GetHash\<close> and the rule table's
  \<^verbatim>\<open>Match\<close> are outside these files and are parameters; \<^verbatim>\<open>tickBan\<close> may change the manager.
  The deferred \<^verbatim>\<open>wg.Done()\<close> ends every run, a panic included. The values put into the
  connection's context and the fields of the log lines are left out.
\<close>

definition handleConnection ::
  "(string \<Rightarrow> ConnectionManager \<Rightarrow> bool \<times> ConnectionManager) \<Rightarrow> (byte list \<Rightarrow> string)
     \<Rightarrow> (byte list \<Rightarrow> MuxListener option) \<Rightarrow> Conn \<Rightarrow> ConnectionManager
     \<Rightarrow> effect list \<times> ConnectionManager" where
  "handleConnection tickBan GetHash Match conn s =
     (case (case RemoteAddr conn of
              TCPAddr ip p \<Rightarrow> tickBan (IP_String ip) s
            | OtherAddr \<Rightarrow> (False, s)) of
        (banned, s1) \<Rightarrow>
          if banned then ([conn_Close, wg_Done], s1)
          else
            (case RemoteAddr conn of
               OtherAddr \<Rightarrow>
                 ([NewMuxConn, StartSniffing, panic ''interface conversion'', wg_Done], s1)
             | TCPAddr ip p \<Rightarrow>
                 (case sniff conn of
                    (bn, es1) \<Rightarrow>
                      (case try_unwrap conn bn of
                         ((muc, buf, n, tlsUnwrap), es2) \<Rightarrow>
                           (case slice_to buf n of
                              None \<Rightarrow>
                                ([NewMuxConn, StartSniffing,
                                  go_sendBanner (word_of_int (LocalPort conn)),
                                  go_timeoutConnection]
                                 @ es1 @ es2
                                 @ [muc_Reset muc, panic ''slice bounds out of range'', wg_Done],
                                 s1)
                            | Some bufn \<Rightarrow>
                                ([NewMuxConn, StartSniffing,
                                  go_sendBanner (word_of_int (LocalPort conn)),
                                  go_timeoutConnection]
                                 @ es1 @ es2
                                 @ [muc_Reset muc, call_GetHash bufn, log_Trace ''tcp knock'']
                                 @ route Match muc buf n @ [wg_Done],
                                 save_raw n (GetHash bufn) bufn s1))))))"

text \<open>
  Modelled from the spec: the matcher behind \<^verbatim>\<open>s.tcpRules.Match\<close> is outside these files. The
  spec has it return the ingress of the driver whose pattern is the longest prefix of the
  buffer, the earlier registration winning a tie. \<open>best\<close> is the match kept so far.
\<close>

fun longest_match ::
  "(byte list \<times> MuxListener) option \<Rightarrow> (byte list \<times> MuxListener) list \<Rightarrow> byte list
     \<Rightarrow> (byte list \<times> MuxListener) option" where
  "longest_match best [] buffer = best"
| "longest_match best ((pattern, ln) # rules) buffer =
     longest_match
       (if take (length pattern) buffer = pattern \<and> length pattern \<le> length buffer
           \<and> (case best of None \<Rightarrow> True | Some (p, _) \<Rightarrow> length p < length pattern)
        then Some (pattern, ln) else best)
       rules buffer"

definition Match_rules :: "(byte list \<times> MuxListener) list \<Rightarrow> byte list \<Rightarrow> MuxListener option" where
  "Match_rules rules buffer = map_option snd (longest_match None rules buffer)"

text \<open>The patterns of the RDP driver, as \<^verbatim>\<open>Patterns()\<close> returns them, under its listener.\<close>

definition rdp_rules :: "(byte list \<times> MuxListener) list" where
  "rdp_rules = [([3, 0, 0], MuxListener ''rdp'')]"

section \<open>Artifact store: \<^verbatim>\<open>Store\<close> and \<^verbatim>\<open>setupStore\<close>\<close>

text \<open>
  \<^verbatim>\<open>Store(filename, location, data)\<close>. \<^verbatim>\<open>s.Sanitize\<close> is outside these files and is a
  parameter; \<open>writeFile\<close> and \<open>upload\<close> are the answers of \<^verbatim>\<open>ioutil.WriteFile\<close> and of the
  uploader, \<^term>\<open>None\<close> for success.
\<close>

definition Store ::
  "(byte list \<Rightarrow> byte list) \<Rightarrow> (string \<Rightarrow> byte list \<Rightarrow> error option)
     \<Rightarrow> (string \<Rightarrow> string \<Rightarrow> byte list \<Rightarrow> error option)
     \<Rightarrow> ConnectionManager \<Rightarrow> string \<Rightarrow> string \<Rightarrow> byte list \<Rightarrow> effect list" where
  "Store Sanitize writeFile upload s filename location data =
     (if OutputFolder (config s) \<noteq> '''' then
        ioutil_WriteFile (OutputFolder (config s) @ ''/'' @ location @ ''/'' @ filename)
          (Sanitize data) #
        (case writeFile (OutputFolder (config s) @ ''/'' @ location @ ''/'' @ filename)
                 (Sanitize data) of
           Some err \<Rightarrow> [log_Debug ''error saving raw data'']
         | None \<Rightarrow> [])
      else [])
     @ (case uploader s of
          Some u \<Rightarrow>
            s3_Upload (S3Bucket (config s)) (location @ ''/'' @ filename) data #
            (case upload (S3Bucket (config s)) (location @ ''/'' @ filename) data of
               Some err \<Rightarrow> [log_Debug ''error saving raw data'']
             | None \<Rightarrow> [])
        | None \<Rightarrow> [])"

text \<open>
  \<^verbatim>\<open>os.Mkdir\<close> on the set of directories that exist, names compared as they are written: it
  makes one new directory and fails with \<^verbatim>\<open>EEXIST\<close> when the name is taken. Every other
  failure (a missing parent, permissions) is the parameter \<open>fault\<close>.
\<close>

definition os_Mkdir ::
  "(string \<Rightarrow> error option) \<Rightarrow> string \<Rightarrow> string set \<Rightarrow> error option \<times> string set" where
  "os_Mkdir fault name dirs =
     (if name \<in> dirs then (Some (PathError ''EEXIST''), dirs)
      else (case fault name of
              Some err \<Rightarrow> (Some err, dirs)
            | None \<Rightarrow> (None, insert name dirs)))"

text \<open>How \<^verbatim>\<open>setupStore\<close> ends: it returns its error, or \<^verbatim>\<open>session.Must\<close> panics.\<close>

datatype outcome = Returned "error option" | Panicked error

text \<open>Lines 37 to 43: \<^verbatim>\<open>"."\<close> becomes the working directory, \<open>getwd\<close> being what \<^verbatim>\<open>os.Getwd()\<close> answers.\<close>

definition resolve_folder :: "error + string \<Rightarrow> ConnectionManager \<Rightarrow> error + ConnectionManager" where
  "resolve_folder getwd s =
     (if OutputFolder (config s) = ''.'' then
        (case getwd of
           Inl err \<Rightarrow> Inl err
         | Inr pw \<Rightarrow> Inr (s\<lparr>config := (config s)\<lparr>OutputFolder := pw @ ''/''\<rparr>\<rparr>))
      else Inr s)"

text \<open>Lines 44 to 51: the two directories, the first error ending the function.\<close>

definition make_folders ::
  "(string \<Rightarrow> error option) \<Rightarrow> ConnectionManager \<Rightarrow> string set \<Rightarrow> error option \<times> string set" where
  "make_folders fault s dirs =
     (if OutputFolder (config s) \<noteq> '''' then
        (case os_Mkdir fault (OutputFolder (config s) @ ''raw'') dirs of
           (Some err, dirs1) \<Rightarrow> (Some err, dirs1)
         | (None, dirs1) \<Rightarrow> os_Mkdir fault (OutputFolder (config s) @ ''sessions'') dirs1)
      else (None, dirs))"

text \<open>
  \<^verbatim>\<open>setupStore() error\<close>, on the manager and the directories that exist. \<open>newSession\<close> is the
  answer of \<^verbatim>\<open>session.NewSession\<close> for the uploader's settings.
\<close>

definition setupStore ::
  "error + string \<Rightarrow> (string \<Rightarrow> error option) \<Rightarrow> (Uploader \<Rightarrow> error option)
     \<Rightarrow> ConnectionManager \<Rightarrow> string set \<Rightarrow> outcome \<times> ConnectionManager \<times> string set" where
  "setupStore getwd fault newSession s dirs =
     (case resolve_folder getwd s of
        Inl err \<Rightarrow> (Returned (Some err), s, dirs)
      | Inr s1 \<Rightarrow>
          (case make_folders fault s1 dirs of
             (Some err, dirs2) \<Rightarrow> (Returned (Some err), s1, dirs2)
           | (None, dirs2) \<Rightarrow>
               if S3Key (config s1) \<noteq> '''' then
                 (let u = \<lparr>KeyID = S3KeyID (config s1), Key = S3Key (config s1),
                            Endpoint = S3Endpoint (config s1), Region = S3Region (config s1)\<rparr>
                  in case newSession u of
                       Some err \<Rightarrow> (Panicked err, s1, dirs2)
                     | None \<Rightarrow> (Returned None, s1\<lparr>uploader := Some u\<rparr>, dirs2))
               else (Returned None, s1, dirs2)))"

section \<open>Example inputs\<close>

text \<open>A manager as it stands after start-up, with nothing bound, known or stored yet.\<close>

definition manager0 :: ConnectionManager where
  "manager0 =
     \<lparr>config = \<lparr>MaxPort = 10000, BindAddress = '''', OutputFolder = ''/data/'',
                 S3Bucket = ''bucket'', S3Key = '''', S3KeyID = '''', S3Endpoint = '''',
                 S3Region = ''''\<rparr>,
      addresses = [], tcpListeners = Map.empty, knownHashes = {}, storeChan = [],
      uploader = None\<rparr>"

text \<open>The same manager with an uploader, as \<^verbatim>\<open>setupStore\<close> makes one when \<^verbatim>\<open>S3Key\<close> is set.\<close>

definition manager_s3 :: ConnectionManager where
  "manager_s3 =
     manager0\<lparr>uploader := Some \<lparr>KeyID = ''id'', Key = ''key'', Endpoint = ''e'', Region = ''r''\<rparr>\<rparr>"

text \<open>The manager configured to store into the working directory.\<close>

definition manager_dot :: ConnectionManager where
  "manager_dot = manager0\<lparr>config := (config manager0)\<lparr>OutputFolder := ''.''\<rparr>\<rparr>"

text \<open>A ban tracker that never bans, and one that bans everybody.\<close>

definition never_banned :: "string \<Rightarrow> ConnectionManager \<Rightarrow> bool \<times> ConnectionManager" where
  "never_banned ip s = (False, s)"

definition always_banned :: "string \<Rightarrow> ConnectionManager \<Rightarrow> bool \<times> ConnectionManager" where
  "always_banned ip s = (True, s)"

text \<open>A client at 1.2.3.4 that connects to port 3389 and sends the given bytes.\<close>

text \<open>The manager after a SYN for port 4444 made it open a listener there.\<close>

definition manager1 :: ConnectionManager where
  "manager1 =
     snd (snd (CreateTCPListener (\<lambda>addr. False) (\<lambda>addr. Inr 40000) manager0 4444))"

definition client :: "byte list \<times> error option \<Rightarrow> Conn" where
  "client rd =
     \<lparr>RemoteAddr = TCPAddr (IPv4 1 2 3 4) 50000, LocalPort = 3389, first_Read = rd,
      unwrapTLS = Inl (OpError ''tls: handshake failure'')\<rparr>"

section \<open>The listener registry\<close>

lemma CreateTCPListener_config:
  "CreateTCPListener privateIP listen s port = (r, es, s') \<Longrightarrow> config s' = config s"
  by (auto simp: CreateTCPListener_def Let_def split: if_splits option.splits sum.splits)

lemma CreateTCPListener_dom:
  "CreateTCPListener privateIP listen s port = (r, es, s')
     \<Longrightarrow> dom (tcpListeners s') \<subseteq> insert port (dom (tcpListeners s))"
  by (auto simp: CreateTCPListener_def Let_def split: if_splits option.splits sum.splits)

lemma CreateTCPListener_grows:
  "CreateTCPListener privateIP listen s port = (r, es, s') \<Longrightarrow> tcpListeners s' \<noteq> tcpListeners s
     \<Longrightarrow> port \<le> MaxPort (config s)"
  by (auto simp: CreateTCPListener_def Let_def split: if_splits option.splits sum.splits)

lemma reachable_below_MaxPort:
  "reachable s \<Longrightarrow> tcpListeners s p = Some ln \<Longrightarrow> p \<le> MaxPort (config s)"
proof (induction arbitrary: p ln rule: reachable.induct)
  case (start s)
  then show ?case by simp
next
  case (create s privateIP listen port r es s')
  have cfg: "config s' = config s"
    using create.hyps(2) by (rule CreateTCPListener_config)
  show ?case
  proof (cases "tcpListeners s p")
    case None
    with create.prems have changed: "tcpListeners s' \<noteq> tcpListeners s" by auto
    have "p \<in> insert port (dom (tcpListeners s))"
      using CreateTCPListener_dom [OF create.hyps(2)] create.prems by blast
    with None have "p = port" by auto
    with CreateTCPListener_grows [OF create.hyps(2) changed] cfg show ?thesis by simp
  next
    case (Some ln')
    with create.IH cfg show ?thesis by simp
  qed
next
  case (other s s')
  then show ?case by simp
qed

lemma Itoa_4444: "Itoa 4444 = ''4444''"
  by code_simp

lemma manager1_eq:
  "manager1 = manager0\<lparr>tcpListeners := [4444 \<mapsto> Listener ''0.0.0.0:4444'' 4444]\<rparr>"
  by (simp add: manager1_def manager0_def CreateTCPListener_def bindAddress_def Itoa_4444 Let_def)

lemma reachable_manager1: "reachable manager1"
proof -
  have "reachable manager0"
    by (rule reachable.start) (simp add: manager0_def)
  moreover have "CreateTCPListener (\<lambda>addr. False) (\<lambda>addr. Inr 40000) manager0 4444
                   = ((False, None),
                      [net_Listen ''0.0.0.0:4444'', go_Accept (Listener ''0.0.0.0:4444'' 4444)],
                      manager1)"
    by (simp add: manager1_def manager0_def CreateTCPListener_def bindAddress_def Itoa_4444 Let_def)
  ultimately show ?thesis by (rule reachable.create)
qed

text \<open>
  A call for a port above \<^verbatim>\<open>MaxPort\<close> returns the error, asks the kernel for nothing, starts
  nothing and leaves the manager as it was; and no state the registry can reach has an entry
  under such a port.
\<close>

lemma CreateTCPListener_rejects_above_MaxPort:
  assumes "MaxPort (config s) < port"
  shows "CreateTCPListener privateIP listen s port
           = ((False, Some (errors_New ''above config.Maxport'')), [], s)
         \<and> (reachable s \<longrightarrow> tcpListeners s port = None)"
proof
  show "CreateTCPListener privateIP listen s port
          = ((False, Some (errors_New ''above config.Maxport'')), [], s)"
    using assms by (simp add: CreateTCPListener_def)
  show "reachable s \<longrightarrow> tcpListeners s port = None"
  proof
    assume r: "reachable s"
    show "tcpListeners s port = None"
    proof (cases "tcpListeners s port")
      case None
      then show ?thesis .
    next
      case (Some ln)
      with r have "port \<le> MaxPort (config s)" by (rule reachable_below_MaxPort)
      with assms show ?thesis by simp
    qed
  qed
qed

text \<open>
  Under every key but 0 the listener is bound to the port it is registered under, so port 0
  is the only way to a listener above \<^verbatim>\<open>MaxPort\<close>.
\<close>

lemma CreateTCPListener_new_entry:
  assumes "CreateTCPListener privateIP listen s port = (r, es, s')"
    and "tcpListeners s p = None" and "tcpListeners s' p = Some (Listener a q)"
  shows "p = port \<and> (port \<noteq> 0 \<longrightarrow> q = port)"
  using assms
  by (auto simp: CreateTCPListener_def Let_def split: if_splits option.splits sum.splits)

lemma CreateTCPListener_old_entry:
  assumes "CreateTCPListener privateIP listen s port = (r, es, s')"
    and "tcpListeners s p = Some ln"
  shows "tcpListeners s' p = Some ln"
  using assms
  by (auto simp: CreateTCPListener_def Let_def split: if_splits option.splits sum.splits)

lemma reachable_bound_port:
  "reachable s \<Longrightarrow> tcpListeners s p = Some (Listener a q) \<Longrightarrow> p \<noteq> 0 \<Longrightarrow> q = p"
proof (induction arbitrary: p a q rule: reachable.induct)
  case (start s)
  then show ?case by simp
next
  case (create s privateIP listen port r es s')
  show ?case
  proof (cases "tcpListeners s p")
    case None
    from CreateTCPListener_new_entry [OF create.hyps(2) None create.prems(1)] create.prems(2)
    show ?thesis by simp
  next
    case (Some ln)
    from CreateTCPListener_old_entry [OF create.hyps(2) Some] create.prems(1)
    have "tcpListeners s p = Some (Listener a q)" using Some by simp
    with create.IH create.prems(2) show ?thesis by blast
  qed
next
  case (other s s')
  then show ?case by simp
qed

lemma Itoa_0: "Itoa 0 = ''0''"
  by code_simp

text \<open>
  C6 asks that a port above \<^verbatim>\<open>MaxPort\<close> be rejected and that no listener ever be bound or
  registered for it. The code rejects the call for such a port, but it lets port 0 through
  the guard: \<^verbatim>\<open>net.Listen\<close> is asked for \<^verbatim>\<open>"0.0.0.0:0"\<close> and the listener that goes into the
  registry and gets its accept loop is bound to the port the kernel picked. With \<^verbatim>\<open>MaxPort\<close>
  10000 and the kernel picking 40000, a listener is bound to port 40000, a port for which
  the call itself is rejected.
\<close>

theorem CreateTCPListener_port_zero_binds_above_MaxPort:
  "MaxPort (config manager0) < 40000
   \<and> CreateTCPListener (\<lambda>addr. False) (\<lambda>addr. Inr 40000) manager0 40000
       = ((False, Some (errors_New ''above config.Maxport'')), [], manager0)
   \<and> CreateTCPListener (\<lambda>addr. False) (\<lambda>addr. Inr 40000) manager0 0
       = ((False, None),
          [net_Listen ''0.0.0.0:0'', go_Accept (Listener ''0.0.0.0:0'' 40000)],
          manager0\<lparr>tcpListeners := [0 \<mapsto> Listener ''0.0.0.0:0'' 40000]\<rparr>)"
  by (simp add: manager0_def CreateTCPListener_def bindAddress_def Itoa_0 Let_def)

text \<open>
  C7. A port that has an entry in the registry: every further call returns \<^verbatim>\<open>(true, nil)\<close>,
  which is how the function says that the listener was there already, and has no side
  effect: no socket is asked for, no accept loop is started, the manager is as it was.
\<close>

theorem CreateTCPListener_idempotent:
  assumes "reachable s" and "tcpListeners s port = Some ln"
  shows "CreateTCPListener privateIP listen s port = ((True, None), [], s)"
proof -
  from assms have "port \<le> MaxPort (config s)" by (rule reachable_below_MaxPort)
  then have "\<not> MaxPort (config s) < port" by simp
  with assms(2) show ?thesis by (simp add: CreateTCPListener_def Let_def)
qed

theorem CreateTCPListener_idempotent_witness:
  "reachable manager1 \<and> tcpListeners manager1 4444 = Some (Listener ''0.0.0.0:4444'' 4444)
   \<and> CreateTCPListener (\<lambda>addr. False) (\<lambda>addr. Inr 40000) manager1 4444 = ((True, None), [], manager1)"
proof -
  have h: "tcpListeners manager1 4444 = Some (Listener ''0.0.0.0:4444'' 4444)"
    by (simp add: manager1_eq)
  from CreateTCPListener_idempotent [OF reachable_manager1 h, of "\<lambda>addr. False" "\<lambda>addr. Inr 40000"]
  show ?thesis using h reachable_manager1 by simp
qed

section \<open>The raw SYN observer\<close>

lemma CreateTCPListener_no_call:
  "call_CreateTCPListener p \<notin> set (fst (snd (CreateTCPListener privateIP listen s port)))"
  by (simp add: CreateTCPListener_def Let_def split: option.splits sum.splits)

text \<open>
  C5, as the code has it. For every packet read, a listener-creation request is issued, and
  for the decoded destination port only, exactly when the packet's SYN flag is set; the ACK
  flag is not looked at.
\<close>

theorem tcpManager_step_requests_on_SYN:
  "call_CreateTCPListener p \<in> set (fst (tcpManager_step privateIP listen Decode (Inr bytes) s))
     \<longleftrightarrow> Flags (Decode bytes) AND SYN \<noteq> 0 \<and> p = DestPort (Decode bytes)"
proof (cases "Flags (Decode bytes) AND SYN = 0")
  case True
  then show ?thesis by (simp add: tcpManager_step_def)
next
  case False
  obtain known err es s' where c:
    "CreateTCPListener privateIP listen s (DestPort (Decode bytes)) = ((known, err), es, s')"
    by (metis prod.exhaust)
  have "call_CreateTCPListener p \<notin> set es"
    using CreateTCPListener_no_call [of p privateIP listen s "DestPort (Decode bytes)"] c by simp
  with False c show ?thesis by (auto simp: tcpManager_step_def Let_def)
qed

text \<open>
  C5, as the claim has it, fails on a SYN-ACK segment: both flags are set in the byte 0x12, and
  a request for port 4444 is issued all the same.
\<close>

theorem tcpManager_step_SYN_ACK:
  "Flags \<lparr>DestPort = 4444, Flags = 0x12\<rparr> AND SYN \<noteq> 0
   \<and> Flags \<lparr>DestPort = 4444, Flags = 0x12\<rparr> AND ACK \<noteq> 0
   \<and> call_CreateTCPListener 4444
       \<in> set (fst (tcpManager_step (\<lambda>addr. False) (\<lambda>addr. Inr 40000)
                      (\<lambda>bytes. \<lparr>DestPort = 4444, Flags = 0x12\<rparr>) (Inr []) manager0))"
  by (simp add: tcpManager_step_def SYN_def ACK_def split: prod.splits)

section \<open>The per-connection handler\<close>

lemmas handler_defs =
  handleConnection_def sniff_def Read_into_def try_unwrap_def slice_to_def route_def
  save_raw_def

lemmas example_defs =
  client_def never_banned_def manager0_def Match_rules_def rdp_rules_def

lemma sniff_length: "length (fst (fst (sniff conn))) = 1500"
  by (simp add: sniff_def Read_into_def Let_def)

lemma save_raw_knownHashes: "knownHashes (save_raw n hash bufn s) = knownHashes s"
  by (simp add: save_raw_def)

lemma handleConnection_knownHashes:
  "knownHashes (snd (handleConnection never_banned GetHash Match conn s)) = knownHashes s"
  by (simp add: handleConnection_def never_banned_def save_raw_knownHashes
        split: Addr.splits prod.splits option.splits)

text \<open>
  C1 asks for at most one raw record per fingerprint hash, the handler adding the hash to the
  Known-Hash Set when it sends one. The code only asks the set (\<^verbatim>\<open>knownHashes.Load\<close>) and never
  adds to it: two connections that send the same four bytes each put a raw record under the
  same name on the capture channel, and the set is as empty after the first as before.
\<close>

theorem handleConnection_raw_sent_twice:
  "knownHashes (snd (handleConnection never_banned h (Match_rules rdp_rules)
                       (client ([3, 0, 0, 7], None)) manager0)) = {}
   \<and> storeChan (snd (handleConnection never_banned h (Match_rules rdp_rules)
                       (client ([3, 0, 0, 7], None))
                       (snd (handleConnection never_banned h (Match_rules rdp_rules)
                               (client ([3, 0, 0, 7], None)) manager0))))
       = [\<lparr>Filename = h [3, 0, 0, 7], Location = ''raw'', Data = [3, 0, 0, 7]\<rparr>,
          \<lparr>Filename = h [3, 0, 0, 7], Location = ''raw'', Data = [3, 0, 0, 7]\<rparr>]"
  by (simp add: handler_defs example_defs)

text \<open>
  C2 asks that the driver chosen be the one whose pattern is the longest prefix of the bytes
  read, and that the connection be closed when no pattern is a prefix of them. The code gives
  \<^verbatim>\<open>Match\<close> the whole buffer of 1500 bytes, the zeros after the bytes read included: a client
  that sends the single byte 3 is handed to the RDP driver, whose pattern 3, 0, 0 is no prefix
  of what was read.
\<close>

theorem handleConnection_matches_padding:
  "Match_rules rdp_rules [3] = None
   \<and> fst (handleConnection never_banned h (Match_rules rdp_rules) (client ([3], None)) manager0)
       = [NewMuxConn, StartSniffing, go_sendBanner 3389, go_timeoutConnection, r_Read,
          bannerCancel, timeoutCancel, muc_Reset Sniffer, call_GetHash [3],
          log_Trace ''tcp knock'', call_Match (3 # replicate 1499 0), muc_Reset Sniffer,
          ConnCh_send (MuxListener ''rdp'') Sniffer, wg_Done]"
  by (simp add: handler_defs example_defs)

text \<open>
  C3 asks that a first read which fails with an error other than EOF end the handler: close,
  return, none of the later steps. The code closes and goes on, there being no \<^verbatim>\<open>return\<close>
  after \<^verbatim>\<open>muc.Close()\<close>: with no byte read it still computes the fingerprint and asks the rule
  table; with bytes read along with the error it also sends the raw record and hands the
  closed connection to the driver.
\<close>

theorem handleConnection_read_error_goes_on:
  "handleConnection never_banned h (Match_rules rdp_rules)
     (client ([], Some (OpError ''connection reset by peer''))) manager0
   = ([NewMuxConn, StartSniffing, go_sendBanner 3389, go_timeoutConnection, r_Read,
       log_Debug ''error reading from sniffer'', muc_Close Sniffer, bannerCancel,
       timeoutCancel, muc_Reset Sniffer, call_GetHash [], log_Trace ''tcp knock'',
       call_Match (replicate 1500 0), muc_Reset Sniffer, muc_Close Sniffer, wg_Done],
      manager0)
   \<and> handleConnection never_banned h (Match_rules rdp_rules)
       (client ([3, 0, 0, 7], Some (OpError ''connection reset by peer''))) manager0
     = ([NewMuxConn, StartSniffing, go_sendBanner 3389, go_timeoutConnection, r_Read,
         log_Debug ''error reading from sniffer'', muc_Close Sniffer, bannerCancel,
         timeoutCancel, muc_Reset Sniffer, call_GetHash [3, 0, 0, 7],
         log_Trace ''tcp knock'', call_Match (3 # 0 # 0 # 7 # replicate 1496 0),
         muc_Reset Sniffer, ConnCh_send (MuxListener ''rdp'') Sniffer, wg_Done],
        manager0\<lparr>storeChan :=
          [\<lparr>Filename = h [3, 0, 0, 7], Location = ''raw'', Data = [3, 0, 0, 7]\<rparr>]\<rparr>)"
  by (simp add: handler_defs example_defs)

text \<open>
  C8. A connection from a TCP address that the ban tick reports as banned: the handler closes
  it and returns. The close and the deferred \<^verbatim>\<open>wg.Done()\<close> are all it does: no sniffer is made,
  nothing is read, neither the banner task nor the timeout task is started, and the manager
  is as the ban tick left it.
\<close>

theorem handleConnection_banned:
  assumes "RemoteAddr conn = TCPAddr ip p" and "tickBan (IP_String ip) s = (True, s')"
  shows "handleConnection tickBan GetHash Match conn s = ([conn_Close, wg_Done], s')"
  using assms by (simp add: handleConnection_def)

theorem handleConnection_banned_witness:
  "RemoteAddr (client ([3, 0, 0], None)) = TCPAddr (IPv4 1 2 3 4) 50000
   \<and> always_banned (IP_String (IPv4 1 2 3 4)) manager0 = (True, manager0)
   \<and> handleConnection always_banned (\<lambda>bytes. ''hash'') (Match_rules rdp_rules)
        (client ([3, 0, 0], None)) manager0
       = ([conn_Close, wg_Done], manager0)"
proof -
  have a: "RemoteAddr (client ([3, 0, 0], None)) = TCPAddr (IPv4 1 2 3 4) 50000"
    by (simp add: client_def)
  have b: "always_banned (IP_String (IPv4 1 2 3 4)) manager0 = (True, manager0)"
    by (simp add: always_banned_def)
  from handleConnection_banned
         [where tickBan = always_banned and s = manager0 and s' = manager0
            and GetHash = "\<lambda>bytes. ''hash''" and Match = "Match_rules rdp_rules", OF a b]
       a b
  show ?thesis by simp
qed

section \<open>The artifact store\<close>

lemma Store_writes:
  "ioutil_WriteFile path bytes \<in> set (Store Sanitize writeFile upload s filename location data)
     \<longleftrightarrow> OutputFolder (config s) \<noteq> '''' \<and> bytes = Sanitize data
         \<and> path = OutputFolder (config s) @ ''/'' @ location @ ''/'' @ filename"
proof (cases "uploader s")
  case None
  then show ?thesis
    by (cases "writeFile (OutputFolder (config s) @ ''/'' @ location @ ''/'' @ filename)
                 (Sanitize data)")
       (auto simp: Store_def)
next
  case (Some u)
  then show ?thesis
    by (cases "writeFile (OutputFolder (config s) @ ''/'' @ location @ ''/'' @ filename)
                 (Sanitize data)";
        cases "upload (S3Bucket (config s)) (location @ ''/'' @ filename) data")
       (auto simp: Store_def)
qed

lemma Store_uploads:
  "s3_Upload bucket key bytes \<in> set (Store Sanitize writeFile upload s filename location data)
     \<longleftrightarrow> uploader s \<noteq> None \<and> bytes = data \<and> bucket = S3Bucket (config s)
         \<and> key = location @ ''/'' @ filename"
proof (cases "uploader s")
  case None
  then show ?thesis
    by (cases "writeFile (OutputFolder (config s) @ ''/'' @ location @ ''/'' @ filename)
                 (Sanitize data)")
       (auto simp: Store_def)
next
  case (Some u)
  then show ?thesis
    by (cases "writeFile (OutputFolder (config s) @ ''/'' @ location @ ''/'' @ filename)
                 (Sanitize data)";
        cases "upload (S3Bucket (config s)) (location @ ''/'' @ filename) data")
       (auto simp: Store_def)
qed

text \<open>
  C10. \<^verbatim>\<open>Store\<close> sanitizes for the local sink only. With a non-empty \<^verbatim>\<open>OutputFolder\<close> it writes
  the sanitized bytes to the file of the record, and that is the only local write it makes;
  with an uploader set it uploads the data as it came under the key of the record, and that is
  the only upload it makes. The upload does not depend on what the local write answered, so
  it is made after a failed write too.
\<close>

theorem Store_sanitizes_local_only:
  "(\<forall>path bytes. ioutil_WriteFile path bytes
        \<in> set (Store Sanitize writeFile upload s filename location data)
      \<longrightarrow> bytes = Sanitize data
          \<and> path = OutputFolder (config s) @ ''/'' @ location @ ''/'' @ filename
          \<and> OutputFolder (config s) \<noteq> '''')
   \<and> (\<forall>bucket key bytes. s3_Upload bucket key bytes
        \<in> set (Store Sanitize writeFile upload s filename location data)
      \<longrightarrow> bytes = data \<and> bucket = S3Bucket (config s) \<and> key = location @ ''/'' @ filename
          \<and> uploader s \<noteq> None)
   \<and> (OutputFolder (config s) \<noteq> ''''
      \<longrightarrow> ioutil_WriteFile (OutputFolder (config s) @ ''/'' @ location @ ''/'' @ filename)
             (Sanitize data)
           \<in> set (Store Sanitize writeFile upload s filename location data))
   \<and> (uploader s \<noteq> None
      \<longrightarrow> s3_Upload (S3Bucket (config s)) (location @ ''/'' @ filename) data
           \<in> set (Store Sanitize writeFile upload s filename location data))"
  by (simp add: Store_writes Store_uploads)

lemma Store_example:
  "Store rev (\<lambda>path bytes. Some (PathError ''ENOSPC'')) (\<lambda>bucket key bytes. None)
     manager_s3 ''abc'' ''raw'' [1, 2]
   = [ioutil_WriteFile ''/data//raw/abc'' [2, 1], log_Debug ''error saving raw data'',
      s3_Upload ''bucket'' ''raw/abc'' [1, 2]]"
  by (simp add: Store_def manager_s3_def manager0_def)

theorem Store_sanitizes_local_only_witness:
  "OutputFolder (config manager_s3) \<noteq> ''''
   \<and> uploader manager_s3 \<noteq> None
   \<and> ioutil_WriteFile ''/data//raw/abc'' [2, 1]
     \<in> set (Store rev (\<lambda>path bytes. Some (PathError ''ENOSPC'')) (\<lambda>bucket key bytes. None)
              manager_s3 ''abc'' ''raw'' [1, 2])
   \<and> [2, 1] = rev [1, 2 :: byte]
   \<and> s3_Upload ''bucket'' ''raw/abc'' [1, 2]
     \<in> set (Store rev (\<lambda>path bytes. Some (PathError ''ENOSPC'')) (\<lambda>bucket key bytes. None)
              manager_s3 ''abc'' ''raw'' [1, 2])"
proof -
  have f: "OutputFolder (config manager_s3) = ''/data/''"
    by (simp add: manager_s3_def manager0_def)
  have ne: "OutputFolder (config manager_s3) \<noteq> ''''"
    by (simp add: f)
  have u: "uploader manager_s3 \<noteq> None"
    by (simp add: manager_s3_def)
  have b: "S3Bucket (config manager_s3) = ''bucket''"
    by (simp add: manager_s3_def manager0_def)
  note all = Store_sanitizes_local_only
         [of rev "\<lambda>path bytes. Some (PathError ''ENOSPC'')" "\<lambda>bucket key bytes. None"
            manager_s3 "''abc''" "''raw''" "[1, 2]"]
  note made = all [THEN conjunct2, THEN conjunct2, THEN conjunct1, THEN mp, OF ne]
  note sent = all [THEN conjunct2, THEN conjunct2, THEN conjunct2, THEN mp, OF u]
  have w: "ioutil_WriteFile ''/data//raw/abc'' [2, 1]
     \<in> set (Store rev (\<lambda>path bytes. Some (PathError ''ENOSPC'')) (\<lambda>bucket key bytes. None)
              manager_s3 ''abc'' ''raw'' [1, 2])"
    using made by (simp add: f)
  have s: "s3_Upload ''bucket'' ''raw/abc'' [1, 2]
     \<in> set (Store rev (\<lambda>path bytes. Some (PathError ''ENOSPC'')) (\<lambda>bucket key bytes. None)
              manager_s3 ''abc'' ''raw'' [1, 2])"
    using sent by (simp add: b)
  from ne u w s show ?thesis by simp
qed

lemma make_folders_fresh:
  assumes "f \<noteq> ''''" and "OutputFolder (config s) = f"
    and "fault (f @ ''raw'') = None" and "fault (f @ ''sessions'') = None"
  shows "make_folders fault s dirs =
           (if f @ ''raw'' \<in> dirs \<or> f @ ''sessions'' \<in> dirs
            then (Some (PathError ''EEXIST''), if f @ ''raw'' \<in> dirs then dirs else insert (f @ ''raw'') dirs)
            else (None, insert (f @ ''sessions'') (insert (f @ ''raw'') dirs)))"
  using assms by (simp add: make_folders_def os_Mkdir_def)

lemma resolve_folder_dot:
  "OutputFolder (config s) = ''.'' \<Longrightarrow>
     resolve_folder (Inr pw) s = Inr (s\<lparr>config := (config s)\<lparr>OutputFolder := pw @ ''/''\<rparr>\<rparr>)"
  by (simp add: resolve_folder_def)

lemma resolve_folder_other:
  "OutputFolder (config s) \<noteq> ''.'' \<Longrightarrow> resolve_folder getwd s = Inr s"
  by (simp add: resolve_folder_def)

lemma setupStore_EEXIST:
  assumes "resolve_folder getwd s = Inr s1"
    and "make_folders fault s1 dirs = (Some err, d)"
  shows "setupStore getwd fault newSession s dirs = (Returned (Some err), s1, d)"
  using assms by (simp add: setupStore_def)

lemma setupStore_made:
  assumes "resolve_folder getwd s = Inr s1"
    and "make_folders fault s1 dirs = (None, d)"
    and "S3Key (config s1) \<noteq> '''' \<longrightarrow>
           newSession \<lparr>KeyID = S3KeyID (config s1), Key = S3Key (config s1),
                       Endpoint = S3Endpoint (config s1), Region = S3Region (config s1)\<rparr> = None"
  shows "fst (setupStore getwd fault newSession s dirs) = Returned None
         \<and> config (fst (snd (setupStore getwd fault newSession s dirs))) = config s1
         \<and> snd (snd (setupStore getwd fault newSession s dirs)) = d"
  using assms by (simp add: setupStore_def Let_def)

text \<open>
  C9, as the code has it. For an \<^verbatim>\<open>OutputFolder\<close> that is \<^verbatim>\<open>"."\<close>, which resolves to the
  working directory followed by a slash, or that ends in a slash, and when no call to the
  system fails for a reason of its own: \<^verbatim>\<open>setupStore\<close> returns \<^verbatim>\<open>nil\<close> when neither
  \<^verbatim>\<open>raw\<close> nor \<^verbatim>\<open>sessions\<close> is there beforehand, and both are there afterwards; when one of
  them is there already, it returns the error \<^verbatim>\<open>EEXIST\<close> of \<^verbatim>\<open>os.Mkdir\<close>.
\<close>

theorem setupStore_folders:
  assumes folder: "OutputFolder (config s) = ''.'' \<and> getwd = Inr pw \<and> f = pw @ ''/''
                   \<or> OutputFolder (config s) = f \<and> f \<noteq> '''' \<and> last f = CHR ''/''"
    and raw: "fault (f @ ''raw'') = None"
    and sessions: "fault (f @ ''sessions'') = None"
    and s3: "S3Key (config s) \<noteq> '''' \<longrightarrow>
               newSession \<lparr>KeyID = S3KeyID (config s), Key = S3Key (config s),
                           Endpoint = S3Endpoint (config s), Region = S3Region (config s)\<rparr> = None"
    and run: "setupStore getwd fault newSession s dirs = (r, s', dirs')"
  shows "OutputFolder (config s') = f
         \<and> (if f @ ''raw'' \<in> dirs \<or> f @ ''sessions'' \<in> dirs
            then r = Returned (Some (PathError ''EEXIST''))
            else r = Returned None
                 \<and> dirs' = insert (f @ ''sessions'') (insert (f @ ''raw'') dirs))"
proof -
  have "\<exists>s1. resolve_folder getwd s = Inr s1 \<and> OutputFolder (config s1) = f \<and> f \<noteq> ''''
          \<and> S3Key (config s1) = S3Key (config s) \<and> S3KeyID (config s1) = S3KeyID (config s)
          \<and> S3Endpoint (config s1) = S3Endpoint (config s)
          \<and> S3Region (config s1) = S3Region (config s)"
    using folder
  proof
    assume "OutputFolder (config s) = ''.'' \<and> getwd = Inr pw \<and> f = pw @ ''/''"
    then show ?thesis by (simp add: resolve_folder_dot)
  next
    assume a: "OutputFolder (config s) = f \<and> f \<noteq> '''' \<and> last f = CHR ''/''"
    have "last ''.'' \<noteq> CHR ''/''" by simp
    with a have "OutputFolder (config s) \<noteq> ''.''" by metis
    with a show ?thesis by (simp add: resolve_folder_other)
  qed
  then obtain s1 where res: "resolve_folder getwd s = Inr s1"
    and f1: "OutputFolder (config s1) = f" and ne: "f \<noteq> ''''"
    and key: "S3Key (config s1) = S3Key (config s)"
    and rest: "S3KeyID (config s1) = S3KeyID (config s)"
      "S3Endpoint (config s1) = S3Endpoint (config s)" "S3Region (config s1) = S3Region (config s)"
    by blast
  note mk = make_folders_fresh [OF ne f1 raw sessions, of dirs]
  show ?thesis
  proof (cases "f @ ''raw'' \<in> dirs \<or> f @ ''sessions'' \<in> dirs")
    case True
    with mk have "fst (make_folders fault s1 dirs) = Some (PathError ''EEXIST'')" by simp
    then obtain d where "make_folders fault s1 dirs = (Some (PathError ''EEXIST''), d)"
      by (metis prod.collapse)
    from setupStore_EEXIST [where newSession = newSession, OF res this] run
    have "r = Returned (Some (PathError ''EEXIST''))" and "s' = s1" by simp_all
    with True f1 show ?thesis by simp
  next
    case False
    with mk have m: "make_folders fault s1 dirs
                       = (None, insert (f @ ''sessions'') (insert (f @ ''raw'') dirs))"
      by simp
    from s3 key rest have ok: "S3Key (config s1) \<noteq> '''' \<longrightarrow>
           newSession \<lparr>KeyID = S3KeyID (config s1), Key = S3Key (config s1),
                       Endpoint = S3Endpoint (config s1), Region = S3Region (config s1)\<rparr> = None"
      by simp
    from setupStore_made [where newSession = newSession, OF res m ok] run
    have "r = Returned None" and "config s' = config s1"
      and "dirs' = insert (f @ ''sessions'') (insert (f @ ''raw'') dirs)" by simp_all
    with False f1 show ?thesis by simp
  qed
qed

lemma setupStore_dot:
  "setupStore (Inr ''/srv/pot'') (\<lambda>name. None) (\<lambda>u. None) manager_dot {''/srv/pot''}
     = (Returned None,
        manager_dot\<lparr>config := (config manager_dot)\<lparr>OutputFolder := ''/srv/pot/''\<rparr>\<rparr>,
        {''/srv/pot/sessions'', ''/srv/pot/raw'', ''/srv/pot''})"
  by (simp add: setupStore_def resolve_folder_def make_folders_def os_Mkdir_def
        manager_dot_def manager0_def)

theorem setupStore_folders_witness:
  "OutputFolder (config manager_dot) = ''.''
   \<and> S3Key (config manager_dot) = ''''
   \<and> setupStore (Inr ''/srv/pot'') (\<lambda>name. None) (\<lambda>u. None) manager_dot {''/srv/pot''}
       = (Returned None,
          manager_dot\<lparr>config := (config manager_dot)\<lparr>OutputFolder := ''/srv/pot/''\<rparr>\<rparr>,
          {''/srv/pot/sessions'', ''/srv/pot/raw'', ''/srv/pot''})
   \<and> OutputFolder
         (config (manager_dot\<lparr>config := (config manager_dot)\<lparr>OutputFolder := ''/srv/pot/''\<rparr>\<rparr>))
       = ''/srv/pot'' @ ''/''
   \<and> Returned None = Returned None
   \<and> {''/srv/pot/sessions'', ''/srv/pot/raw'', ''/srv/pot''}
       = insert ((''/srv/pot'' @ ''/'') @ ''sessions'')
           (insert ((''/srv/pot'' @ ''/'') @ ''raw'') {''/srv/pot''})"
proof -
  have d: "OutputFolder (config manager_dot) = ''.''"
    by (simp add: manager_dot_def)
  have k: "S3Key (config manager_dot) = ''''"
    by (simp add: manager_dot_def manager0_def)
  have folder: "OutputFolder (config manager_dot) = ''.'' \<and> Inr ''/srv/pot'' = Inr ''/srv/pot''
                \<and> ''/srv/pot'' @ ''/'' = ''/srv/pot'' @ ''/''
              \<or> OutputFolder (config manager_dot) = ''/srv/pot'' @ ''/''
                \<and> ''/srv/pot'' @ ''/'' \<noteq> '''' \<and> last (''/srv/pot'' @ ''/'') = CHR ''/''"
    using d by simp
  have s3: "S3Key (config manager_dot) \<noteq> '''' \<longrightarrow>
              (\<lambda>u. None) \<lparr>KeyID = S3KeyID (config manager_dot), Key = S3Key (config manager_dot),
                            Endpoint = S3Endpoint (config manager_dot),
                            Region = S3Region (config manager_dot)\<rparr> = (None :: error option)"
    by simp
  from setupStore_folders
         [where fault = "\<lambda>name. None" and newSession = "\<lambda>u. None" and dirs = "{''/srv/pot''}",
          OF folder refl refl s3 setupStore_dot]
       d k setupStore_dot
  show ?thesis by simp
qed

text \<open>
  C9, as the claim has it, fails when the two directories are there already: \<^verbatim>\<open>os.Mkdir\<close>
  answers \<^verbatim>\<open>EEXIST\<close> for \<^verbatim>\<open>raw\<close> and \<^verbatim>\<open>setupStore\<close> returns that error.
\<close>

theorem setupStore_existing_folders:
  "OutputFolder (config manager0) = ''/data/''
   \<and> fst (setupStore (Inr ''/srv/pot'') (\<lambda>name. None) (\<lambda>u. None) manager0
             {''/data/'', ''/data/raw'', ''/data/sessions''})
       = Returned (Some (PathError ''EEXIST''))"
  by (simp add: setupStore_def resolve_folder_def make_folders_def os_Mkdir_def manager0_def)

end
